theory Spec2Isabelle
  imports Main "HOL-Library.Sublist"
begin

section \<open>JavaScript strings\<close>

text \<open>
  A JavaScript string is modelled as a \<open>string\<close>: a list of characters, each standing for
  one code unit below 256. A property that may be \<open>undefined\<close> is a \<open>string option\<close>.
  The string methods the program calls are written out below.
\<close>

text \<open>\<open>s.includes(sub)\<close>: \<open>sub\<close> occurs in \<open>s\<close> as a contiguous run.\<close>

fun includes_str :: "string \<Rightarrow> string \<Rightarrow> bool" where
  "includes_str [] sub = (sub = [])"
| "includes_str (c # cs) sub = (prefix sub (c # cs) \<or> includes_str cs sub)"

text \<open>
  \<open>s.replace(pat, rep)\<close> with a string pattern: only the leftmost occurrence of \<open>pat\<close> is
  replaced. (The replacement strings of the program contain no \<open>$\<close>, so no replacement
  pattern is expanded.)
\<close>

fun replace :: "string \<Rightarrow> string \<Rightarrow> string \<Rightarrow> string" where
  "replace [] pat rep = (if pat = [] then rep else [])"
| "replace (c # cs) pat rep =
     (if prefix pat (c # cs) then rep @ drop (length pat) (c # cs)
      else c # replace cs pat rep)"

text \<open>The number of positions of \<open>s\<close> at which \<open>sub\<close> occurs.\<close>

fun occurrences :: "string \<Rightarrow> string \<Rightarrow> nat" where
  "occurrences [] sub = (if sub = [] then 1 else 0)"
| "occurrences (c # cs) sub =
     (if prefix sub (c # cs) then 1 else 0) + occurrences cs sub"

text \<open>Truthiness of a string-valued property: defined and not the empty string.\<close>

fun truthy :: "string option \<Rightarrow> bool" where
  "truthy None = False"
| "truthy (Some s) = (s \<noteq> [])"

section \<open>The write path: \<open>uploadToCloudinary\<close>\<close>

text \<open>
  The options object and the configuration passed to the store are maps from property
  names to values. The store (\<open>cloudinary.uploader.upload\<close>) is a parameter: given the path
  and the configuration it either rejects with an error or resolves with a result. The
  file system is the set of paths that exist.
\<close>

datatype exn = Error string

type_synonym config = "string \<rightharpoonup> string"

record upload_result =
  resource_type :: "string option"
  secure_url :: "string option"
  public_id :: "string option"
  bytes :: nat

type_synonym store = "string \<Rightarrow> config \<Rightarrow> exn + upload_result"

record upload_outcome =
  outcome :: "exn + upload_result"
  files :: "string set"
  store_calls :: "(string \<times> config) list"

definition image_segment :: string where
  "image_segment = ''/image/upload/''"

definition raw_segment :: string where
  "raw_segment = ''/raw/upload/''"

text \<open>\<open>fs.unlinkSync\<close>: removes an existing file, throws when there is none.\<close>

definition unlinkSync :: "string \<Rightarrow> string set \<Rightarrow> exn + string set" where
  "unlinkSync p fs =
     (if p \<in> fs then Inr (fs - {p})
      else Inl (Error ''ENOENT: no such file or directory, unlink''))"

text \<open>The defaults, overridden by the caller's options (\<open>{...defaults, ...options}\<close>).\<close>

definition baseConfig :: "config \<Rightarrow> config" where
  "baseConfig options =
     [''folder'' \<mapsto> ''jamalpur-chamber'', ''resource_type'' \<mapsto> ''auto'',
      ''type'' \<mapsto> ''upload'', ''access_mode'' \<mapsto> ''public''] ++ options"

text \<open>The configuration the store is called with.\<close>

definition storeConfig :: "config \<Rightarrow> config" where
  "storeConfig options =
     (let b = baseConfig options in
      if b ''resource_type'' \<noteq> Some ''raw''
      then b(''quality'' \<mapsto> ''auto'', ''fetch_format'' \<mapsto> ''auto'')
      else b)"

text \<open>
  The rewriting of the delivery URL after a successful store call. (The check that a raw
  upload came back as raw only logs, and is left out.)
\<close>

definition fixUrl :: "config \<Rightarrow> upload_result \<Rightarrow> upload_result" where
  "fixUrl options result =
     (if options ''resource_type'' = Some ''raw'' \<or> resource_type result = Some ''raw''
      then (case secure_url result of
              None \<Rightarrow> result
            | Some u \<Rightarrow>
                if u \<noteq> [] \<and> includes_str u image_segment
                then result\<lparr>secure_url := Some (replace u image_segment raw_segment)\<rparr>
                else result)
      else result)"

text \<open>The \<open>catch\<close> block: remove the staged file if it exists, then rethrow.\<close>

definition cleanup :: "string \<Rightarrow> string set \<Rightarrow> string set" where
  "cleanup filePath fs = (if filePath \<in> fs then fs - {filePath} else fs)"

definition uploadToCloudinary ::
  "store \<Rightarrow> string set \<Rightarrow> string \<Rightarrow> config \<Rightarrow> upload_outcome" where
  "uploadToCloudinary upload fs filePath options =
     (let cfg = storeConfig options in
      case upload filePath cfg of
        Inl e \<Rightarrow>
          \<lparr>outcome = Inl e, files = cleanup filePath fs, store_calls = [(filePath, cfg)]\<rparr>
      | Inr result \<Rightarrow>
          (case unlinkSync filePath fs of
             Inl e \<Rightarrow>
               \<lparr>outcome = Inl e, files = cleanup filePath fs,
                store_calls = [(filePath, cfg)]\<rparr>
           | Inr fs' \<Rightarrow>
               \<lparr>outcome = Inr (fixUrl options result), files = fs',
                store_calls = [(filePath, cfg)]\<rparr>))"


subsection \<open>Concrete stores and inputs\<close>

text \<open>Fixed inputs at which the properties below are evaluated.\<close>

definition staged :: string where
  "staged = ''/tmp/pdfFile-1.pdf''"

definition raw_options :: config where
  "raw_options = [''resource_type'' \<mapsto> ''raw'']"

definition store_ok :: "string \<Rightarrow> store" where
  "store_ok u p cfg =
     Inr \<lparr>resource_type = Some ''image'', secure_url = Some u,
          public_id = Some ''jamalpur-chamber/a'', bytes = 2048\<rparr>"

definition store_fails :: store where
  "store_fails p cfg = Inl (Error ''quota exceeded'')"


definition url_once :: string where
  "url_once = ''https://res.cloudinary.com/demo/image/upload/v1/jamalpur-chamber/a.pdf''"

definition url_twice :: string where
  "url_twice = ''https://res.cloudinary.com/demo/image/upload/v1/image/upload/a.pdf''"

section \<open>More string methods\<close>

text \<open>
  White space and line terminators as \<open>trim\<close> sees them, among the code units below 256:
  tab, line feed, vertical tab, form feed, carriage return, space, no-break space.
\<close>

definition is_space :: "char \<Rightarrow> bool" where
  "is_space c = (c \<in> set [CHR 0x09, CHR 0x0A, CHR 0x0B, CHR 0x0C, CHR 0x0D, CHR 0x20, CHR 0xA0])"

definition trim :: "string \<Rightarrow> string" where
  "trim s = rev (dropWhile is_space (rev (dropWhile is_space s)))"

definition toLowerCase_char :: "char \<Rightarrow> char" where
  "toLowerCase_char c =
     (let n = (of_char c :: nat) in
      if (65 \<le> n \<and> n \<le> 90) \<or> (192 \<le> n \<and> n \<le> 222 \<and> n \<noteq> 215)
      then char_of (n + 32) else c)"

definition toLowerCase :: "string \<Rightarrow> string" where
  "toLowerCase s = map toLowerCase_char s"

text \<open>Matching under the \<open>i\<close> flag: only the ASCII letters have two cases.\<close>

definition ascii_lower :: "char \<Rightarrow> char" where
  "ascii_lower c =
     (let n = (of_char c :: nat) in if 65 \<le> n \<and> n \<le> 90 then char_of (n + 32) else c)"

definition is_alnum :: "char \<Rightarrow> bool" where
  "is_alnum c =
     (let n = (of_char c :: nat) in
      (48 \<le> n \<and> n \<le> 57) \<or> (65 \<le> n \<and> n \<le> 90) \<or> (97 \<le> n \<and> n \<le> 122))"

definition ends_with :: "string \<Rightarrow> string \<Rightarrow> bool" where
  "ends_with suf s = prefix (rev suf) (rev s)"

text \<open>\<open>/\.pdf$/i.test(s)\<close>\<close>

definition test_pdf :: "string \<Rightarrow> bool" where
  "test_pdf s = ends_with ''.pdf'' (map ascii_lower s)"

text \<open>
  \<open>/\.[A-Za-z0-9]{2,6}$/.test(s)\<close>: the letters and digits at the end of \<open>s\<close> are two to
  six, and a dot stands before them.
\<close>

definition hasExtension :: "string \<Rightarrow> bool" where
  "hasExtension s =
     (let n = length (takeWhile is_alnum (rev s)) in
      2 \<le> n \<and> n \<le> 6 \<and> prefix ''.'' (drop n (rev s)))"

text \<open>\<open>a || d\<close> where \<open>d\<close> is a string, and \<open>a || b\<close> where \<open>b\<close> may be undefined.\<close>

definition or_else :: "string option \<Rightarrow> string \<Rightarrow> string" where
  "or_else a d = (case a of None \<Rightarrow> d | Some s \<Rightarrow> if s = [] then d else s)"

definition or_opt :: "string option \<Rightarrow> string option \<Rightarrow> string option" where
  "or_opt a b = (if truthy a then a else b)"

text \<open>A value inside a template literal, or converted to a string by the host.\<close>

definition template :: "string option \<Rightarrow> string" where
  "template a = (case a of None \<Rightarrow> ''undefined'' | Some s \<Rightarrow> s)"

text \<open>A number inside a template literal: its decimal digits.\<close>

fun show_nat :: "nat \<Rightarrow> string" where
  "show_nat n =
     (if n < 10 then [char_of (48 + n)] else show_nat (n div 10) @ [char_of (48 + n mod 10)])"

declare show_nat.simps [simp del]

section \<open>The read path: \<open>PDFHandler\<close>\<close>

subsection \<open>Data and host\<close>

record pdf_file =
  filename :: "string option"
  fileId :: "string option"
  url :: "string option"
  publicId :: "string option"
  originalName :: "string option"
  data :: "string option"
  name :: "string option"
  mimetype :: "string option"

text \<open>A \<open>Blob\<close>: its bytes and its \<open>type\<close>.\<close>

record blob =
  content :: string
  btype :: string

text \<open>The second argument of \<open>fetch\<close>.\<close>

record fetch_init =
  http_method :: string
  mode :: "string option"
  cache :: string
  credentials :: string
  headers :: "(string \<times> string) list"

text \<open>
  A \<open>Response\<close>: \<open>response.blob()\<close> resolves with a blob or rejects. The
  \<open>content-type\<close> header is only logged; the program decides on the blob's \<open>type\<close>.
\<close>

record response =
  status :: nat
  content_type :: "string option"
  body :: "exn + blob"

definition ok :: "response \<Rightarrow> bool" where
  "ok r = (200 \<le> status r \<and> status r \<le> 299)"

text \<open>
  The host: the environment variable, \<open>fetch\<close>, \<open>window.open\<close> (whether it returned a
  window), \<open>URL.createObjectURL\<close>, and the creation, insertion and click of a link with
  a given \<open>href\<close> and \<open>download\<close> name. Each call may throw.
\<close>

record env =
  api_url :: "string option"
  fetch :: "string \<Rightarrow> fetch_init \<Rightarrow> exn + response"
  window_open :: "string \<Rightarrow> exn + bool"
  createObjectURL :: "blob \<Rightarrow> exn + string"
  click :: "string \<Rightarrow> string \<Rightarrow> exn + unit"

text \<open>
  What a run does to the host, in order. Console output is recorded only for the
  validation warning and for the log line at the start of \<open>_downloadBlob\<close>. The callbacks
  registered for later (\<open>setTimeout\<close>, \<open>FileReader.onloadend\<close>, \<open>onload\<close>) run after the
  call has returned and are not part of it.
\<close>

datatype event =
    Fetch string fetch_init
  | Alert string
  | Warn_invalid_pdf string
  | Log_downloading string nat string
  | Create_object_url blob
  | Link_click string string
  | Window_open string

text \<open>A computation: it throws or returns, and leaves a trace.\<close>

type_synonym 'a io = "(exn + 'a) \<times> event list"

definition ret :: "'a \<Rightarrow> 'a io" where
  "ret x = (Inr x, [])"

definition throw :: "exn \<Rightarrow> 'a io" where
  "throw e = (Inl e, [])"

definition emit :: "event \<Rightarrow> unit io" where
  "emit ev = (Inr (), [ev])"

definition host :: "event \<Rightarrow> exn + 'a \<Rightarrow> 'a io" where
  "host ev r = (r, [ev])"

definition and_then :: "'a io \<Rightarrow> ('a \<Rightarrow> 'b io) \<Rightarrow> 'b io" where
  "and_then m f =
     (case m of
        (Inl e, t) \<Rightarrow> (Inl e, t)
      | (Inr x, t) \<Rightarrow> (case f x of (r, t') \<Rightarrow> (r, t @ t')))"

definition try_catch :: "'a io \<Rightarrow> (exn \<Rightarrow> 'a io) \<Rightarrow> 'a io" where
  "try_catch m h =
     (case m of
        (Inl e, t) \<Rightarrow> (case h e of (r, t') \<Rightarrow> (r, t @ t'))
      | (Inr x, t) \<Rightarrow> (Inr x, t))"

fun message :: "exn \<Rightarrow> string" where
  "message (Error m) = m"

subsection \<open>File names\<close>

text \<open>The extension inferred from a lower-cased MIME type.\<close>

definition inferExt :: "string \<Rightarrow> string" where
  "inferExt mime =
     (if includes_str mime ''pdf'' then ''.pdf''
      else if includes_str mime ''jpeg'' \<or> includes_str mime ''jpg'' then ''.jpg''
      else if includes_str mime ''png'' then ''.png''
      else if includes_str mime ''gif'' then ''.gif''
      else [])"

definition getFilename :: "pdf_file option \<Rightarrow> string" where
  "getFilename pdfFile =
     (case pdfFile of
        None \<Rightarrow> ''document''
      | Some f \<Rightarrow>
          (let base = trim (or_else (originalName f)
                              (or_else (name f) (or_else (filename f) ''document'')))
           in if hasExtension base then base
              else (let ext = inferExt (toLowerCase (or_else (mimetype f) []))
                    in if base @ ext = [] then ''document'' else base @ ext)))"

definition expectPdf :: "pdf_file \<Rightarrow> bool" where
  "expectPdf f =
     (test_pdf (getFilename (Some f)) \<or>
      includes_str (toLowerCase (or_else (mimetype f) [])) ''pdf'')"

text \<open>The characters \<open>< > : " / \ | ? *\<close>.\<close>

definition illegal :: "char \<Rightarrow> bool" where
  "illegal c =
     (c \<in> set [CHR ''<'', CHR ''>'', CHR '':'', CHR 0x22, CHR ''/'', CHR 0x5C, CHR ''|'',
               CHR ''?'', CHR ''*''])"

text \<open>\<open>filename.replace(/[<>:"/\\|?*]/g, '_').trim() || fallback\<close>\<close>

definition sanitizedFilename :: "string \<Rightarrow> string \<Rightarrow> string" where
  "sanitizedFilename fallback fname =
     (let s = trim (map (\<lambda>c. if illegal c then CHR ''_'' else c) fname)
      in if s = [] then fallback else s)"

text \<open>The name \<open>_downloadBlob\<close> saves under.\<close>

definition finalFilename :: "blob \<Rightarrow> string \<Rightarrow> string" where
  "finalFilename b fname =
     (let s = sanitizedFilename ''document'' fname
      in if hasExtension s then s else s @ inferExt (toLowerCase (btype b)))"

text \<open>The name \<open>_downloadFromDataURL\<close> saves under.\<close>

definition dataFilename :: "string \<Rightarrow> string" where
  "dataFilename fname =
     (let s = sanitizedFilename ''document.pdf'' fname
      in if test_pdf s then s else s @ ''.pdf'')"


subsection \<open>The URL that is fetched\<close>

text \<open>\<open>s.match(/res\.cloudinary\.com\/([^/]+)/)?.[1]\<close>\<close>

fun cloudName :: "string \<Rightarrow> string option" where
  "cloudName [] = None"
| "cloudName (c # cs) =
     (let rest = drop (length ''res.cloudinary.com/'') (c # cs);
          grp = takeWhile (\<lambda>x. x \<noteq> CHR ''/'') rest
      in if prefix ''res.cloudinary.com/'' (c # cs) \<and> grp \<noteq> [] then Some grp
         else cloudName cs)"

text \<open>\<open>publicId.replace(/\.(pdf|jpg|jpeg|png|gif)$/i, '')\<close>\<close>

definition cleanPublicId :: "string \<Rightarrow> string" where
  "cleanPublicId p =
     (let l = map ascii_lower p in
      if ends_with ''.pdf'' l \<or> ends_with ''.jpg'' l \<or> ends_with ''.png'' l \<or>
         ends_with ''.gif'' l
      then take (length p - 4) p
      else if ends_with ''.jpeg'' l then take (length p - 5) p
      else p)"

definition fetchUrl :: "string \<Rightarrow> string option \<Rightarrow> string" where
  "fetchUrl u pid =
     (if includes_str u ''res.cloudinary.com'' then
        (let u1 = (if includes_str u image_segment then replace u image_segment raw_segment
                   else u);
             u2 = (if truthy pid \<and> \<not> includes_str u1 raw_segment then
                     (case cloudName u1 of
                        None \<Rightarrow> u1
                      | Some cn \<Rightarrow>
                          ''https://res.cloudinary.com/'' @ cn @ ''/raw/upload/'' @
                          cleanPublicId (template pid))
                   else u1);
             separator = (if includes_str u2 ''?'' then ''&'' else ''?'')
         in if \<not> includes_str u2 ''fl_attachment'' then u2 @ separator @ ''fl_attachment''
            else u2)
      else u)"

definition url_init :: fetch_init where
  "url_init =
     \<lparr>http_method = ''GET'', mode = Some ''cors'', cache = ''no-cache'', credentials = ''omit'',
      headers = [(''Accept'', ''application/pdf, application/octet-stream, */*'')]\<rparr>"

definition server_init :: fetch_init where
  "server_init =
     \<lparr>http_method = ''GET'', mode = None, cache = ''no-cache'', credentials = ''omit'',
      headers = []\<rparr>"

definition apiBase :: "env \<Rightarrow> string" where
  "apiBase en =
     or_else (api_url en) ''https://jamalpur-chamber-backend-b61d.onrender.com/api''"

definition serverUrl :: "env \<Rightarrow> pdf_file \<Rightarrow> string" where
  "serverUrl en f = apiBase en @ ''/files/'' @ template (or_opt (filename f) (fileId f))"

subsection \<open>Delivery\<close>

definition downloadBlob :: "env \<Rightarrow> blob \<Rightarrow> string \<Rightarrow> unit io" where
  "downloadBlob en b fname =
     try_catch
       (let final = finalFilename b fname in
        and_then (emit (Log_downloading final (length (content b)) (btype b))) (\<lambda>_.
          if length (content b) = 0 then throw (Error ''Invalid blob: file is empty'')
          else
            and_then (host (Create_object_url b) (createObjectURL en b)) (\<lambda>href.
            and_then (host (Link_click href final) (click en href final)) (\<lambda>_.
            ret ()))))
       (\<lambda>error.
          and_then (emit (Alert (''Failed to download PDF: '' @ message error))) (\<lambda>_.
          throw error))"

text \<open>The payload handed to \<open>_downloadBlob\<close>.\<close>

definition finalBlob :: "bool \<Rightarrow> blob \<Rightarrow> blob" where
  "finalBlob expect b =
     (if expect \<and>
         \<not> (btype b = ''application/pdf'' \<or> btype b = ''application/octet-stream'' \<or>
            btype b = [])
      then b\<lparr>btype := ''application/pdf''\<rparr>
      else b)"

text \<open>
  What \<open>_downloadFromUrl\<close> and \<open>_downloadFromServer\<close> both do with the response: the status
  check, the empty check, the signature check and the delivery.
\<close>

definition receive :: "env \<Rightarrow> bool \<Rightarrow> string \<Rightarrow> response \<Rightarrow> bool io" where
  "receive en expect fname resp =
     (if \<not> ok resp then throw (Error (''HTTP error! status: '' @ show_nat (status resp)))
      else
        and_then (body resp, []) (\<lambda>b.
          if length (content b) = 0 then throw (Error ''Downloaded file is empty'')
          else
            and_then
              (if expect \<and> \<not> prefix ''%PDF'' (take 4 (content b))
               then emit (Warn_invalid_pdf (take 4 (content b))) else ret ()) (\<lambda>_.
            and_then (downloadBlob en (finalBlob expect b) fname) (\<lambda>_.
            ret True))))"

definition failed_alert :: "exn \<Rightarrow> event" where
  "failed_alert error =
     Alert (''PDF download failed: '' @ message error @ [CHR 0x0A, CHR 0x0A] @
            ''Please try again or contact support if the problem persists.'')"

text \<open>
  A descriptor without \<open>url\<close> makes \<open>fetchUrl.includes\<close> throw a \<open>TypeError\<close> inside the
  \<open>try\<close> block (the message is the engine's, shortened here).
\<close>

definition downloadFromUrl :: "env \<Rightarrow> pdf_file \<Rightarrow> bool io" where
  "downloadFromUrl en f =
     (let fname = getFilename (Some f); expect = expectPdf f in
      try_catch
        (case url f of
           None \<Rightarrow> throw (Error ''Cannot read properties of undefined'')
         | Some u \<Rightarrow>
             (let target = fetchUrl u (publicId f) in
              and_then (host (Fetch target url_init) (fetch en target url_init))
                (receive en expect fname)))
        (\<lambda>error. and_then (emit (failed_alert error)) (\<lambda>_. ret False)))"

definition downloadFromServer :: "env \<Rightarrow> pdf_file \<Rightarrow> bool io" where
  "downloadFromServer en f =
     (let pdfUrl = serverUrl en f; fname = getFilename (Some f); expect = expectPdf f in
      try_catch
        (and_then (host (Fetch pdfUrl server_init) (fetch en pdfUrl server_init))
           (receive en expect fname))
        (\<lambda>error. and_then (emit (failed_alert error)) (\<lambda>_. ret False)))"

definition downloadFromDataURL :: "env \<Rightarrow> pdf_file \<Rightarrow> bool io" where
  "downloadFromDataURL en f =
     try_catch
       (let final = dataFilename (getFilename (Some f)); href = template (data f) in
        and_then (host (Link_click href final) (click en href final)) (\<lambda>_. ret True))
       (\<lambda>error. ret False)"

subsection \<open>The public entry points\<close>

definition download :: "env \<Rightarrow> pdf_file option \<Rightarrow> bool io" where
  "download en pdfFile =
     (case pdfFile of
        None \<Rightarrow> ret False
      | Some f \<Rightarrow>
          try_catch
            (if truthy (url f) then downloadFromUrl en f
             else if truthy (filename f) \<or> truthy (fileId f) then downloadFromServer en f
             else if truthy (data f) then downloadFromDataURL en f
             else ret False)
            (\<lambda>error. ret False))"

definition view :: "env \<Rightarrow> pdf_file option \<Rightarrow> bool io" where
  "view en pdfFile =
     (case pdfFile of
        None \<Rightarrow> ret False
      | Some f \<Rightarrow>
          try_catch
            (if truthy (url f) then
               and_then (host (Window_open (template (url f)))
                           (window_open en (template (url f)))) (\<lambda>_. ret True)
             else if truthy (filename f) \<or> truthy (fileId f) then
               and_then (host (Window_open (serverUrl en f))
                           (window_open en (serverUrl en f))) (\<lambda>_. ret True)
             else if truthy (data f) then
               and_then (host (Window_open (template (data f)))
                           (window_open en (template (data f)))) (\<lambda>_. ret True)
             else ret False)
            (\<lambda>error. ret False))"

definition print :: "env \<Rightarrow> pdf_file option \<Rightarrow> bool io" where
  "print en pdfFile =
     (case pdfFile of
        None \<Rightarrow> ret False
      | Some f \<Rightarrow>
          try_catch
            (case (if truthy (url f) then Some (template (url f))
                   else if truthy (filename f) \<or> truthy (fileId f) then Some (serverUrl en f)
                   else if truthy (data f) then Some (template (data f))
                   else None) of
               None \<Rightarrow> ret False
             | Some pdfUrl \<Rightarrow>
                 and_then (host (Window_open pdfUrl) (window_open en pdfUrl))
                   (\<lambda>printWindow. if printWindow then ret True else ret False))
            (\<lambda>error. ret False))"

text \<open>The fetches of a trace, in order.\<close>

fun fetches :: "event list \<Rightarrow> (string \<times> fetch_init) list" where
  "fetches [] = []"
| "fetches (Fetch u i # es) = (u, i) # fetches es"
| "fetches (_ # es) = fetches es"

text \<open>Whether a trace shows that \<open>_downloadBlob\<close> was entered or an object URL requested.\<close>

fun delivery_event :: "event \<Rightarrow> bool" where
  "delivery_event (Log_downloading _ _ _) = True"
| "delivery_event (Create_object_url _) = True"
| "delivery_event (Link_click _ _) = True"
| "delivery_event _ = False"


subsection \<open>Concrete descriptors and hosts\<close>

text \<open>Fixed inputs at which the properties of the read path are evaluated.\<close>

definition old_descriptor :: pdf_file where
  "old_descriptor =
     \<lparr>filename = Some ''old.pdf'', fileId = Some ''123'', url = None, publicId = None,
      originalName = None, data = None, name = None, mimetype = None\<rparr>"

definition id_descriptor :: pdf_file where
  "id_descriptor =
     \<lparr>filename = None, fileId = Some ''123'', url = None, publicId = None,
      originalName = None, data = None, name = None, mimetype = None\<rparr>"

definition blank_name_descriptor :: pdf_file where
  "blank_name_descriptor =
     \<lparr>filename = Some [], fileId = Some ''123'', url = None, publicId = None,
      originalName = None, data = None, name = None, mimetype = None\<rparr>"

definition empty_descriptor :: pdf_file where
  "empty_descriptor =
     \<lparr>filename = None, fileId = None, url = None, publicId = None,
      originalName = None, data = None, name = None, mimetype = None\<rparr>"

definition remote_descriptor :: pdf_file where
  "remote_descriptor =
     \<lparr>filename = Some ''old.pdf'', fileId = Some ''123'',
      url = Some ''https://res.cloudinary.com/demo/image/upload/v1/jamalpur-chamber/a.pdf'',
      publicId = Some ''jamalpur-chamber/a'', originalName = Some ''a.pdf'',
      data = Some ''data:application/pdf;base64,JVBERg=='', name = None,
      mimetype = Some ''application/pdf''\<rparr>"

definition data_descriptor :: pdf_file where
  "data_descriptor =
     \<lparr>filename = None, fileId = None, url = None, publicId = None,
      originalName = None, data = Some ''data:application/pdf;base64,JVBERg=='',
      name = Some ''form'', mimetype = None\<rparr>"

definition host_env :: "exn + response \<Rightarrow> env" where
  "host_env r =
     \<lparr>api_url = None, fetch = (\<lambda>u i. r), window_open = (\<lambda>u. Inr True),
      createObjectURL = (\<lambda>b. Inr ''blob:1''), click = (\<lambda>h d. Inr ())\<rparr>"

definition failing_env :: env where
  "failing_env =
     \<lparr>api_url = None, fetch = (\<lambda>u i. Inl (Error ''Failed to fetch'')),
      window_open = (\<lambda>u. Inl (Error ''blocked'')),
      createObjectURL = (\<lambda>b. Inl (Error ''no URL'')),
      click = (\<lambda>h d. Inl (Error ''no document''))\<rparr>"

definition resp_404 :: response where
  "resp_404 = \<lparr>status = 404, content_type = None, body = Inr \<lparr>content = ''Not Found'', btype = ''text/plain''\<rparr>\<rparr>"

definition resp_empty :: response where
  "resp_empty = \<lparr>status = 200, content_type = Some ''application/pdf'', body = Inr \<lparr>content = [], btype = ''application/pdf''\<rparr>\<rparr>"

definition resp_octet :: response where
  "resp_octet = \<lparr>status = 200, content_type = Some ''application/octet-stream'',
     body = Inr \<lparr>content = ''JUNK'', btype = ''application/octet-stream''\<rparr>\<rparr>"

definition resp_html :: response where
  "resp_html = \<lparr>status = 200, content_type = Some ''text/html'',
     body = Inr \<lparr>content = ''<html>'', btype = ''text/html''\<rparr>\<rparr>"

section \<open>Properties of the write path\<close>

subsection \<open>Facts about \<open>replace\<close> and \<open>includes\<close>\<close>

lemma replace_absent: "\<not> includes_str s pat \<Longrightarrow> replace s pat rep = s"
  by (induction s) auto

lemma occurrences_0: "(occurrences s sub = 0) = (\<not> includes_str s sub)"
  by (induction s) auto

lemma tl_image_suffixes:
  "suffix p (tl image_segment) \<Longrightarrow> p \<in> set (suffixes ''image/upload/'')"
  by (simp only: in_set_suffixes image_segment_def list.sel)

lemma prefix_replace_tail:
  "suffix p (tl image_segment) \<Longrightarrow> prefix p (replace cs image_segment raw_segment)
     \<Longrightarrow> prefix p cs"
proof (induction cs arbitrary: p)
  case Nil
  then show ?case by (simp add: image_segment_def)
next
  case (Cons d ds)
  show ?case
  proof (cases "prefix image_segment (d # ds)")
    case True
    then obtain post where post: "d # ds = image_segment @ post"
      by (auto simp: prefix_def)
    have r: "replace (d # ds) image_segment raw_segment = raw_segment @ post"
      using True post by (simp add: image_segment_def)
    from Cons.prems(1) have "p \<in> set (suffixes ''image/upload/'')"
      by (rule tl_image_suffixes)
    then show ?thesis using Cons.prems(2) unfolding r post
      by (auto simp: image_segment_def raw_segment_def)
  next
    case False
    then have r: "replace (d # ds) image_segment raw_segment = d # replace ds image_segment raw_segment"
      by simp
    show ?thesis
    proof (cases p)
      case Nil
      then show ?thesis by simp
    next
      case (Cons e p')
      with Cons.prems(2) r have e: "e = d" and pp: "prefix p' (replace ds image_segment raw_segment)"
        by auto
      from Cons.prems(1) Cons have "suffix p' (tl image_segment)"
        by (meson suffix_ConsD)
      from Cons.IH [OF this pp] e Cons show ?thesis by simp
    qed
  qed
qed

lemma raw_post:
  "\<not> includes_str (''image/upload/'' @ post) image_segment \<Longrightarrow>
     \<not> includes_str (raw_segment @ post) image_segment"
  by (simp add: image_segment_def raw_segment_def)

lemma replace_single:
  "occurrences u image_segment \<le> 1 \<Longrightarrow>
     \<not> includes_str (replace u image_segment raw_segment) image_segment"
proof (induction u)
  case Nil
  then show ?case by (simp add: image_segment_def)
next
  case (Cons c cs)
  show ?case
  proof (cases "prefix image_segment (c # cs)")
    case True
    with Cons.prems have "occurrences cs image_segment = 0" by simp
    then have no: "\<not> includes_str cs image_segment" by (simp add: occurrences_0)
    from True obtain post where post: "c # cs = image_segment @ post"
      by (auto simp: prefix_def)
    then have cs: "cs = ''image/upload/'' @ post" by (simp add: image_segment_def)
    have r: "replace (c # cs) image_segment raw_segment = raw_segment @ post"
      using True post by (simp add: image_segment_def)
    from no cs have "\<not> includes_str (''image/upload/'' @ post) image_segment" by simp
    then have "\<not> includes_str (raw_segment @ post) image_segment" by (rule raw_post)
    then show ?thesis unfolding r .
  next
    case False
    with Cons.prems have "occurrences cs image_segment \<le> 1" by simp
    then have ih: "\<not> includes_str (replace cs image_segment raw_segment) image_segment"
      by (rule Cons.IH)
    have "\<not> prefix image_segment (c # replace cs image_segment raw_segment)"
    proof
      assume a: "prefix image_segment (c # replace cs image_segment raw_segment)"
      then have c: "c = CHR ''/''" and t: "prefix (tl image_segment) (replace cs image_segment raw_segment)"
        by (auto simp: image_segment_def)
      have "prefix (tl image_segment) cs"
        by (rule prefix_replace_tail [OF _ t]) simp
      with c have "prefix image_segment (c # cs)" by (simp add: image_segment_def)
      with False show False by simp
    qed
    with ih False show ?thesis by simp
  qed
qed

lemma image_segment_nonempty: "image_segment \<noteq> []"
  by (simp add: image_segment_def)

lemma fixUrl_raw:
  "options ''resource_type'' = Some ''raw'' \<Longrightarrow>
     secure_url (fixUrl options r) =
       map_option (\<lambda>u. replace u image_segment raw_segment) (secure_url r)"
  by (auto simp: fixUrl_def replace_absent image_segment_nonempty split: option.splits)

lemma occurrences_url_once: "occurrences url_once image_segment = 1"
  by (simp add: url_once_def image_segment_def)

subsection \<open>The delivery URL of a raw upload\<close>

text \<open>
  Claim C1, as stated, fails: \<open>replace\<close> with a string pattern rewrites only the leftmost
  \<open>/image/upload/\<close>, so a store URL that carries the segment twice (here a folder named
  \<open>image/upload\<close>) still contains it in the result.
\<close>

theorem raw_upload_url_counterexample:
  "outcome (uploadToCloudinary (store_ok url_twice) {staged} staged raw_options) =
     Inr \<lparr>resource_type = Some ''image'',
          secure_url = Some ''https://res.cloudinary.com/demo/raw/upload/v1/image/upload/a.pdf'',
          public_id = Some ''jamalpur-chamber/a'', bytes = 2048\<rparr> \<and>
   includes_str ''https://res.cloudinary.com/demo/raw/upload/v1/image/upload/a.pdf''
     image_segment"
  by (simp add: uploadToCloudinary_def Let_def store_ok_def unlinkSync_def fixUrl_def
        raw_options_def url_twice_def image_segment_def raw_segment_def)

text \<open>
  Claim C1, amended: for an upload with \<open>resource_type: 'raw'\<close> that returns a result with
  a delivery URL, that URL is the store's URL with the leftmost \<open>/image/upload/\<close> replaced
  by \<open>/raw/upload/\<close>; it contains no \<open>/image/upload/\<close> whenever the store's URL contains
  the segment at most once.
\<close>

theorem raw_upload_url:
  assumes "options ''resource_type'' = Some ''raw''"
    and "outcome (uploadToCloudinary upload fs filePath options) = Inr r"
    and "secure_url r = Some u"
  shows "\<exists>r0 u0. upload filePath (storeConfig options) = Inr r0 \<and>
           secure_url r0 = Some u0 \<and>
           u = replace u0 image_segment raw_segment \<and>
           (occurrences u0 image_segment \<le> 1 \<longrightarrow> \<not> includes_str u image_segment)"
proof -
  from assms(2) obtain r0 where r0: "upload filePath (storeConfig options) = Inr r0"
    and r: "r = fixUrl options r0"
    by (auto simp: uploadToCloudinary_def Let_def split: sum.splits)
  from assms(3) r fixUrl_raw [of options r0, OF assms(1)]
  obtain u0 where u0: "secure_url r0 = Some u0"
    and u: "u = replace u0 image_segment raw_segment"
    by (cases "secure_url r0") auto
  from u have "occurrences u0 image_segment \<le> 1 \<longrightarrow> \<not> includes_str u image_segment"
    by (simp add: replace_single)
  with r0 u0 u show ?thesis by blast
qed

theorem raw_upload_url_witness:
  "raw_options ''resource_type'' = Some ''raw'' \<and>
   occurrences url_once image_segment \<le> 1 \<and>
   \<not> includes_str ''https://res.cloudinary.com/demo/raw/upload/v1/jamalpur-chamber/a.pdf''
       image_segment"
proof -
  let ?r = "\<lparr>resource_type = Some ''image'',
      secure_url = Some ''https://res.cloudinary.com/demo/raw/upload/v1/jamalpur-chamber/a.pdf'',
      public_id = Some ''jamalpur-chamber/a'', bytes = 2048\<rparr>"
  have a: "raw_options ''resource_type'' = Some ''raw''" by (simp add: raw_options_def)
  have b: "outcome (uploadToCloudinary (store_ok url_once) {staged} staged raw_options) = Inr ?r"
    by (simp add: uploadToCloudinary_def Let_def store_ok_def unlinkSync_def fixUrl_def
          raw_options_def url_once_def image_segment_def raw_segment_def)
  have c: "secure_url ?r
    = Some ''https://res.cloudinary.com/demo/raw/upload/v1/jamalpur-chamber/a.pdf''" by simp
  from raw_upload_url [OF a b c] obtain r0 u0
    where r0: "store_ok url_once staged (storeConfig raw_options) = Inr r0"
      and u0: "secure_url r0 = Some u0"
      and imp: "occurrences u0 image_segment \<le> 1 \<longrightarrow> \<not> includes_str
        ''https://res.cloudinary.com/demo/raw/upload/v1/jamalpur-chamber/a.pdf'' image_segment"
    by blast
  from r0 u0 have "u0 = url_once" by (auto simp: store_ok_def)
  with imp occurrences_url_once a show ?thesis by simp
qed

subsection \<open>Transform options in the store call\<close>




subsection \<open>The staged file\<close>

text \<open>
  Claim C6: after \<open>uploadToCloudinary\<close>, whatever the store did, the staged file is gone
  and every other file is untouched; an error of the store is the error the caller
  receives; and when the store succeeds and the staged file is there, the caller receives
  the result.
\<close>

theorem upload_removes_staged_file:
  "files (uploadToCloudinary upload fs filePath options) = fs - {filePath} \<and>
   (upload filePath (storeConfig options) = Inl e \<longrightarrow>
      outcome (uploadToCloudinary upload fs filePath options) = Inl e) \<and>
   (upload filePath (storeConfig options) = Inr r \<and> filePath \<in> fs \<longrightarrow>
      outcome (uploadToCloudinary upload fs filePath options) = Inr (fixUrl options r))"
  by (auto simp: uploadToCloudinary_def Let_def unlinkSync_def cleanup_def
           split: sum.splits if_splits)

theorem upload_removes_staged_file_witness:
  "files (uploadToCloudinary store_fails {staged, ''/tmp/other''} staged raw_options)
     = {''/tmp/other''} \<and>
   outcome (uploadToCloudinary store_fails {staged, ''/tmp/other''} staged raw_options)
     = Inl (Error ''quota exceeded'') \<and>
   staged \<in> {staged, ''/tmp/other''} \<and>
   outcome (uploadToCloudinary (store_ok ''u'') {staged, ''/tmp/other''} staged raw_options)
     = Inr (fixUrl raw_options
        \<lparr>resource_type = Some ''image'', secure_url = Some ''u'',
          public_id = Some ''jamalpur-chamber/a'', bytes = 2048\<rparr>)"
  using upload_removes_staged_file [of store_fails "{staged, ''/tmp/other''}" staged
      raw_options "Error ''quota exceeded''"]
    upload_removes_staged_file [of "store_ok ''u''" "{staged, ''/tmp/other''}" staged
      raw_options _ "\<lparr>resource_type = Some ''image'', secure_url = Some ''u'',
          public_id = Some ''jamalpur-chamber/a'', bytes = 2048\<rparr>"]
  by (simp add: store_fails_def store_ok_def staged_def)

section \<open>Properties of the read path\<close>

subsection \<open>Traces of the helpers\<close>

lemmas io_defs = ret_def throw_def emit_def host_def and_then_def try_catch_def

lemma fst_and_then:
  "fst (and_then m f) = (case fst m of Inl e \<Rightarrow> Inl e | Inr x \<Rightarrow> fst (f x))"
  by (simp add: and_then_def split: prod.splits sum.splits)

lemma snd_and_then:
  "snd (and_then m f) = snd m @ (case fst m of Inl e \<Rightarrow> [] | Inr x \<Rightarrow> snd (f x))"
  by (simp add: and_then_def split: prod.splits sum.splits)

lemma fst_try_catch:
  "fst (try_catch m h) = (case fst m of Inl e \<Rightarrow> fst (h e) | Inr x \<Rightarrow> Inr x)"
  by (simp add: try_catch_def split: prod.splits sum.splits)

lemma snd_try_catch:
  "snd (try_catch m h) = snd m @ (case fst m of Inl e \<Rightarrow> snd (h e) | Inr x \<Rightarrow> [])"
  by (simp add: try_catch_def split: prod.splits sum.splits)

lemma try_catch_id: "fst m = Inr b \<Longrightarrow> try_catch m h = m"
  by (cases m) (simp add: try_catch_def)

lemma fetches_append: "fetches (xs @ ys) = fetches xs @ fetches ys"
  by (induction xs rule: fetches.induct) simp_all

lemma fetches_failed_alert: "fetches [failed_alert e] = []"
  by (simp add: failed_alert_def)

lemma downloadBlob_cases:
  "downloadBlob en b fname =
     (if content b = [] then
        (Inl (Error ''Invalid blob: file is empty''),
         [Log_downloading (finalFilename b fname) 0 (btype b),
          Alert ''Failed to download PDF: Invalid blob: file is empty''])
      else case createObjectURL en b of
        Inl e \<Rightarrow>
          (Inl e, [Log_downloading (finalFilename b fname) (length (content b)) (btype b),
                   Create_object_url b, Alert (''Failed to download PDF: '' @ message e)])
      | Inr href \<Rightarrow>
          (case click en href (finalFilename b fname) of
             Inl e \<Rightarrow>
               (Inl e, [Log_downloading (finalFilename b fname) (length (content b)) (btype b),
                        Create_object_url b, Link_click href (finalFilename b fname),
                        Alert (''Failed to download PDF: '' @ message e)])
           | Inr _ \<Rightarrow>
               (Inr (), [Log_downloading (finalFilename b fname) (length (content b)) (btype b),
                         Create_object_url b, Link_click href (finalFilename b fname)])))"
  by (simp add: downloadBlob_def io_defs Let_def split: sum.splits)

lemma fetches_downloadBlob: "fetches (snd (downloadBlob en b fname)) = []"
  by (simp add: downloadBlob_cases split: sum.splits)

lemma receive_fetches: "fetches (snd (receive en expect fname resp)) = []"
  by (simp add: receive_def snd_and_then fst_and_then fetches_append fetches_downloadBlob
        ret_def throw_def emit_def split: sum.splits)

lemma receive_not_ok:
  "\<not> ok resp \<Longrightarrow>
     receive en expect fname resp
       = (Inl (Error (''HTTP error! status: '' @ show_nat (status resp))), [])"
  by (simp add: receive_def throw_def)

lemma receive_empty:
  "ok resp \<Longrightarrow> body resp = Inr b \<Longrightarrow> content b = [] \<Longrightarrow>
     receive en expect fname resp = (Inl (Error ''Downloaded file is empty''), [])"
  by (simp add: receive_def io_defs)

lemma receive_delivers:
  "ok resp \<Longrightarrow> body resp = Inr b \<Longrightarrow> content b \<noteq> [] \<Longrightarrow>
     receive en expect fname resp =
       (let w = (if expect \<and> \<not> prefix ''%PDF'' (take 4 (content b))
                 then [Warn_invalid_pdf (take 4 (content b))] else [])
        in case downloadBlob en (finalBlob expect b) fname of
             (Inl e, t) \<Rightarrow> (Inl e, w @ t)
           | (Inr _, t) \<Rightarrow> (Inr True, w @ t))"
  by (simp add: receive_def io_defs Let_def split: sum.splits prod.splits)

lemma pdf_signature: "prefix ''%PDF'' (take 4 xs) = (take 4 xs = ''%PDF'')"
proof
  assume "prefix ''%PDF'' (take 4 xs)"
  then obtain zs where z: "take 4 xs = ''%PDF'' @ zs"
    by (auto simp: prefix_def)
  then have "length (take 4 xs) = 4 + length zs"
    by simp
  moreover have "length (take 4 xs) \<le> 4"
    by simp
  ultimately have "zs = []"
    by simp
  with z show "take 4 xs = ''%PDF''"
    by simp
next
  assume "take 4 xs = ''%PDF''"
  then show "prefix ''%PDF'' (take 4 xs)"
    by simp
qed

lemma downloadFromUrl_returns: "\<exists>b. fst (downloadFromUrl en f) = Inr b"
  by (auto simp: downloadFromUrl_def Let_def fst_try_catch fst_and_then ret_def emit_def
        split: sum.splits)

lemma downloadFromServer_returns: "\<exists>b. fst (downloadFromServer en f) = Inr b"
  by (auto simp: downloadFromServer_def Let_def fst_try_catch fst_and_then ret_def emit_def
        split: sum.splits)

lemma downloadFromDataURL_returns: "\<exists>b. fst (downloadFromDataURL en f) = Inr b"
  by (auto simp: downloadFromDataURL_def Let_def fst_try_catch fst_and_then ret_def
        split: sum.splits)

lemma downloadFromUrl_fetched:
  "url f = Some u \<Longrightarrow> fetch en (fetchUrl u (publicId f)) url_init = Inr resp \<Longrightarrow>
     downloadFromUrl en f =
       (case receive en (expectPdf f) (getFilename (Some f)) resp of
          (Inl e, t) \<Rightarrow>
            (Inr False, Fetch (fetchUrl u (publicId f)) url_init # t @ [failed_alert e])
        | (Inr r, t) \<Rightarrow> (Inr r, Fetch (fetchUrl u (publicId f)) url_init # t))"
  by (simp add: downloadFromUrl_def Let_def io_defs split: sum.splits prod.splits)

lemma downloadFromServer_fetched:
  "fetch en (serverUrl en f) server_init = Inr resp \<Longrightarrow>
     downloadFromServer en f =
       (case receive en (expectPdf f) (getFilename (Some f)) resp of
          (Inl e, t) \<Rightarrow>
            (Inr False, Fetch (serverUrl en f) server_init # t @ [failed_alert e])
        | (Inr r, t) \<Rightarrow> (Inr r, Fetch (serverUrl en f) server_init # t))"
  by (simp add: downloadFromServer_def Let_def io_defs split: sum.splits prod.splits)

lemma fetches_downloadFromUrl:
  "url f = Some u \<Longrightarrow>
     fetches (snd (downloadFromUrl en f)) = [(fetchUrl u (publicId f), url_init)]"
  by (simp add: downloadFromUrl_def Let_def snd_try_catch snd_and_then fst_and_then
        fetches_append receive_fetches host_def ret_def emit_def fetches_failed_alert
        split: sum.splits)

lemma fetches_downloadFromServer:
  "fetches (snd (downloadFromServer en f)) = [(serverUrl en f, server_init)]"
  by (simp add: downloadFromServer_def Let_def snd_try_catch snd_and_then fst_and_then
        fetches_append receive_fetches host_def ret_def emit_def fetches_failed_alert
        split: sum.splits)

subsection \<open>Evaluation at the concrete inputs\<close>

lemma remote_fields:
  "url remote_descriptor
     = Some ''https://res.cloudinary.com/demo/image/upload/v1/jamalpur-chamber/a.pdf''"
  "publicId remote_descriptor = Some ''jamalpur-chamber/a''"
  by (simp_all add: remote_descriptor_def)

lemma fetchUrl_remote:
  "fetchUrl ''https://res.cloudinary.com/demo/image/upload/v1/jamalpur-chamber/a.pdf''
     (Some ''jamalpur-chamber/a'')
   = ''https://res.cloudinary.com/demo/raw/upload/v1/jamalpur-chamber/a.pdf?fl_attachment''"
  by (simp add: fetchUrl_def image_segment_def raw_segment_def Let_def)

lemma getFilename_remote: "getFilename (Some remote_descriptor) = ''a.pdf''"
  by (simp add: getFilename_def remote_descriptor_def or_else_def trim_def is_space_def
        hasExtension_def is_alnum_def Let_def)

lemma expectPdf_remote: "expectPdf remote_descriptor"
  by (simp add: expectPdf_def getFilename_remote test_pdf_def ends_with_def ascii_lower_def
        Let_def)

lemma finalFilename_a: "finalFilename b ''a.pdf'' = ''a.pdf''"
  by (simp add: finalFilename_def sanitizedFilename_def illegal_def trim_def is_space_def
        hasExtension_def is_alnum_def Let_def)

lemma show_nat_404: "show_nat 404 = ''404''"
  by code_simp

subsection \<open>Resolution order\<close>

text \<open>
  Claim C2: \<open>download\<close> resolves a descriptor in the order url, then filename or fileId,
  then data, where a field counts as present when it is truthy. With a url the run is
  that of \<open>_downloadFromUrl\<close> and its one fetch goes to the URL derived from the url
  field, whatever the other fields hold; without url and with a legacy field it is that of
  \<open>_downloadFromServer\<close>; with data only it is that of \<open>_downloadFromDataURL\<close>, which
  fetches nothing; with none of them it returns false and touches nothing.
\<close>

theorem download_resolution_order:
  "(truthy (url f) \<longrightarrow>
      download en (Some f) = downloadFromUrl en f \<and>
      fetches (snd (download en (Some f)))
        = [(fetchUrl (template (url f)) (publicId f), url_init)]) \<and>
   (\<not> truthy (url f) \<and> (truthy (filename f) \<or> truthy (fileId f)) \<longrightarrow>
      download en (Some f) = downloadFromServer en f \<and>
      fetches (snd (download en (Some f))) = [(serverUrl en f, server_init)]) \<and>
   (\<not> truthy (url f) \<and> \<not> truthy (filename f) \<and> \<not> truthy (fileId f) \<and> truthy (data f) \<longrightarrow>
      download en (Some f) = downloadFromDataURL en f \<and>
      fetches (snd (download en (Some f))) = []) \<and>
   (\<not> truthy (url f) \<and> \<not> truthy (filename f) \<and> \<not> truthy (fileId f) \<and> \<not> truthy (data f) \<longrightarrow>
      download en (Some f) = (Inr False, []))"
proof -
  have u: "download en (Some f) = downloadFromUrl en f" if "truthy (url f)"
    using that downloadFromUrl_returns [of en f]
    by (auto simp: download_def try_catch_id)
  have s: "download en (Some f) = downloadFromServer en f"
    if "\<not> truthy (url f)" "truthy (filename f) \<or> truthy (fileId f)"
    using that downloadFromServer_returns [of en f]
    by (auto simp: download_def try_catch_id)
  have d: "download en (Some f) = downloadFromDataURL en f"
    if "\<not> truthy (url f)" "\<not> truthy (filename f)" "\<not> truthy (fileId f)" "truthy (data f)"
    using that downloadFromDataURL_returns [of en f]
    by (auto simp: download_def try_catch_id)
  have n: "download en (Some f) = (Inr False, [])"
    if "\<not> truthy (url f)" "\<not> truthy (filename f)" "\<not> truthy (fileId f)" "\<not> truthy (data f)"
    using that by (simp add: download_def io_defs)
  have fu: "fetches (snd (downloadFromUrl en f))
      = [(fetchUrl (template (url f)) (publicId f), url_init)]" if "truthy (url f)"
    using that
    by (cases "url f")
      (simp_all add: downloadFromUrl_def Let_def snd_try_catch snd_and_then fst_and_then
        fetches_append receive_fetches template_def host_def ret_def emit_def
        fetches_failed_alert split: sum.splits)
  have fs: "fetches (snd (downloadFromServer en f)) = [(serverUrl en f, server_init)]"
    by (simp add: downloadFromServer_def Let_def snd_try_catch snd_and_then fst_and_then
        fetches_append receive_fetches host_def ret_def emit_def fetches_failed_alert
        split: sum.splits)
  have fd: "fetches (snd (downloadFromDataURL en f)) = []"
    by (simp add: downloadFromDataURL_def Let_def snd_try_catch snd_and_then fst_and_then
        fetches_append host_def ret_def split: sum.splits)
  from u s d n fu fs fd show ?thesis by simp
qed

theorem download_resolution_order_witness:
  "truthy (url remote_descriptor) \<and> truthy (filename remote_descriptor) \<and>
   truthy (fileId remote_descriptor) \<and> truthy (data remote_descriptor) \<and>
   fetches (snd (download (host_env (Inr resp_404)) (Some remote_descriptor)))
     = [(''https://res.cloudinary.com/demo/raw/upload/v1/jamalpur-chamber/a.pdf?fl_attachment'',
         url_init)] \<and>
   fetches (snd (download (host_env (Inr resp_404)) (Some old_descriptor)))
     = [(''https://jamalpur-chamber-backend-b61d.onrender.com/api/files/old.pdf'',
         server_init)] \<and>
   download (host_env (Inr resp_404)) (Some data_descriptor)
     = downloadFromDataURL (host_env (Inr resp_404)) data_descriptor \<and>
   download (host_env (Inr resp_404)) (Some empty_descriptor) = (Inr False, [])"
proof -
  let ?en = "host_env (Inr resp_404)"
  have t: "truthy (url remote_descriptor)" "truthy (filename remote_descriptor)"
    "truthy (fileId remote_descriptor)" "truthy (data remote_descriptor)"
    by (simp_all add: remote_descriptor_def)
  have "fetches (snd (download ?en (Some remote_descriptor)))
      = [(fetchUrl (template (url remote_descriptor)) (publicId remote_descriptor), url_init)]"
    using download_resolution_order [of remote_descriptor ?en] t by blast
  then have r: "fetches (snd (download ?en (Some remote_descriptor)))
      = [(''https://res.cloudinary.com/demo/raw/upload/v1/jamalpur-chamber/a.pdf?fl_attachment'',
          url_init)]"
    by (simp add: remote_descriptor_def template_def fetchUrl_remote)
  have "\<not> truthy (url old_descriptor) \<and>
      (truthy (filename old_descriptor) \<or> truthy (fileId old_descriptor))"
    by (simp add: old_descriptor_def)
  then have "fetches (snd (download ?en (Some old_descriptor)))
      = [(serverUrl ?en old_descriptor, server_init)]"
    using download_resolution_order [of old_descriptor ?en] by blast
  then have l: "fetches (snd (download ?en (Some old_descriptor)))
      = [(''https://jamalpur-chamber-backend-b61d.onrender.com/api/files/old.pdf'',
          server_init)]"
    by (simp add: old_descriptor_def serverUrl_def apiBase_def or_else_def or_opt_def
          template_def host_env_def)
  have "\<not> truthy (url data_descriptor) \<and> \<not> truthy (filename data_descriptor) \<and>
      \<not> truthy (fileId data_descriptor) \<and> truthy (data data_descriptor)"
    by (simp add: data_descriptor_def)
  then have d: "download ?en (Some data_descriptor) = downloadFromDataURL ?en data_descriptor"
    using download_resolution_order [of data_descriptor ?en] by blast
  have "\<not> truthy (url empty_descriptor) \<and> \<not> truthy (filename empty_descriptor) \<and>
      \<not> truthy (fileId empty_descriptor) \<and> \<not> truthy (data empty_descriptor)"
    by (simp add: empty_descriptor_def)
  then have e: "download ?en (Some empty_descriptor) = (Inr False, [])"
    using download_resolution_order [of empty_descriptor ?en] by blast
  from t r l d e show ?thesis by simp
qed

subsection \<open>The fetch\<close>

text \<open>
  Claim C7: a remote download and a legacy download each issue exactly one fetch, a GET
  with credentials omitted, whatever happens afterwards; and when the response status is
  not in 200..299 the download returns false after alerting a message that carries the
  status code, and the run consists of the fetch and the alert only, so no object URL is
  created.
\<close>

theorem single_get_without_credentials:
  "(url f = Some u \<longrightarrow>
      fetches (snd (downloadFromUrl en f)) = [(fetchUrl u (publicId f), url_init)]) \<and>
   fetches (snd (downloadFromServer en f)) = [(serverUrl en f, server_init)] \<and>
   http_method url_init = ''GET'' \<and> credentials url_init = ''omit'' \<and>
   http_method server_init = ''GET'' \<and> credentials server_init = ''omit'' \<and>
   (url f = Some u \<and> fetch en (fetchUrl u (publicId f)) url_init = Inr resp \<and> \<not> ok resp \<longrightarrow>
      downloadFromUrl en f =
        (Inr False,
         [Fetch (fetchUrl u (publicId f)) url_init,
          failed_alert (Error (''HTTP error! status: '' @ show_nat (status resp)))])) \<and>
   (fetch en (serverUrl en f) server_init = Inr resp \<and> \<not> ok resp \<longrightarrow>
      downloadFromServer en f =
        (Inr False,
         [Fetch (serverUrl en f) server_init,
          failed_alert (Error (''HTTP error! status: '' @ show_nat (status resp)))]))"
  by (simp add: fetches_downloadFromUrl fetches_downloadFromServer url_init_def
        server_init_def downloadFromUrl_fetched downloadFromServer_fetched receive_not_ok)

theorem single_get_without_credentials_witness:
  "url remote_descriptor
     = Some ''https://res.cloudinary.com/demo/image/upload/v1/jamalpur-chamber/a.pdf'' \<and>
   \<not> ok resp_404 \<and>
   downloadFromUrl (host_env (Inr resp_404)) remote_descriptor =
     (Inr False,
      [Fetch ''https://res.cloudinary.com/demo/raw/upload/v1/jamalpur-chamber/a.pdf?fl_attachment''
         url_init,
       Alert (''PDF download failed: HTTP error! status: 404'' @ [CHR 0x0A, CHR 0x0A] @
              ''Please try again or contact support if the problem persists.'')]) \<and>
   downloadFromServer (host_env (Inr resp_404)) old_descriptor =
     (Inr False,
      [Fetch ''https://jamalpur-chamber-backend-b61d.onrender.com/api/files/old.pdf''
         server_init,
       Alert (''PDF download failed: HTTP error! status: 404'' @ [CHR 0x0A, CHR 0x0A] @
              ''Please try again or contact support if the problem persists.'')])"
  using single_get_without_credentials [of remote_descriptor
      "''https://res.cloudinary.com/demo/image/upload/v1/jamalpur-chamber/a.pdf''"
      "host_env (Inr resp_404)" resp_404]
    single_get_without_credentials [of old_descriptor _ "host_env (Inr resp_404)" resp_404]
  by (simp add: remote_descriptor_def old_descriptor_def fetchUrl_remote serverUrl_def
        apiBase_def or_else_def or_opt_def template_def host_env_def resp_404_def ok_def
        failed_alert_def show_nat_404)

text \<open>
  Claim C8: when the fetch succeeds and the body has no bytes, the download returns false
  after alerting that the file is empty; the run consists of the fetch and the alert
  only, so \<open>_downloadBlob\<close> is not entered.
\<close>

theorem empty_body_fails:
  "(url f = Some u \<and> fetch en (fetchUrl u (publicId f)) url_init = Inr resp \<and> ok resp \<and>
    body resp = Inr b \<and> content b = [] \<longrightarrow>
      downloadFromUrl en f =
        (Inr False,
         [Fetch (fetchUrl u (publicId f)) url_init,
          failed_alert (Error ''Downloaded file is empty'')]) \<and>
      filter delivery_event (snd (downloadFromUrl en f)) = []) \<and>
   (fetch en (serverUrl en f) server_init = Inr resp \<and> ok resp \<and>
    body resp = Inr b \<and> content b = [] \<longrightarrow>
      downloadFromServer en f =
        (Inr False,
         [Fetch (serverUrl en f) server_init,
          failed_alert (Error ''Downloaded file is empty'')]) \<and>
      filter delivery_event (snd (downloadFromServer en f)) = [])"
  by (simp add: downloadFromUrl_fetched downloadFromServer_fetched receive_empty
        failed_alert_def)

theorem empty_body_fails_witness:
  "ok resp_empty \<and>
   download (host_env (Inr resp_empty)) (Some remote_descriptor) =
     (Inr False,
      [Fetch ''https://res.cloudinary.com/demo/raw/upload/v1/jamalpur-chamber/a.pdf?fl_attachment''
         url_init,
       Alert (''PDF download failed: Downloaded file is empty'' @ [CHR 0x0A, CHR 0x0A] @
              ''Please try again or contact support if the problem persists.'')]) \<and>
   download (host_env (Inr resp_empty)) (Some old_descriptor) =
     (Inr False,
      [Fetch ''https://jamalpur-chamber-backend-b61d.onrender.com/api/files/old.pdf''
         server_init,
       Alert (''PDF download failed: Downloaded file is empty'' @ [CHR 0x0A, CHR 0x0A] @
              ''Please try again or contact support if the problem persists.'')])"
proof -
  let ?en = "host_env (Inr resp_empty)"
  let ?b = "\<lparr>content = [], btype = ''application/pdf''\<rparr>"
  have k: "ok resp_empty" by (simp add: resp_empty_def ok_def)
  have a: "url remote_descriptor
      = Some ''https://res.cloudinary.com/demo/image/upload/v1/jamalpur-chamber/a.pdf'' \<and>
    fetch ?en (fetchUrl ''https://res.cloudinary.com/demo/image/upload/v1/jamalpur-chamber/a.pdf''
      (publicId remote_descriptor)) url_init = Inr resp_empty \<and> ok resp_empty \<and>
    body resp_empty = Inr ?b \<and> content ?b = []"
    by (simp add: remote_descriptor_def host_env_def resp_empty_def ok_def)
  have "downloadFromUrl ?en remote_descriptor =
      (Inr False,
       [Fetch (fetchUrl ''https://res.cloudinary.com/demo/image/upload/v1/jamalpur-chamber/a.pdf''
          (publicId remote_descriptor)) url_init,
        failed_alert (Error ''Downloaded file is empty'')])"
    using empty_body_fails [of remote_descriptor _ ?en resp_empty ?b] a by blast
  then have r: "download ?en (Some remote_descriptor) =
      (Inr False,
       [Fetch ''https://res.cloudinary.com/demo/raw/upload/v1/jamalpur-chamber/a.pdf?fl_attachment''
          url_init,
        Alert (''PDF download failed: Downloaded file is empty'' @ [CHR 0x0A, CHR 0x0A] @
               ''Please try again or contact support if the problem persists.'')])"
    by (simp add: download_def try_catch_def remote_descriptor_def fetchUrl_remote
          failed_alert_def)
  have c: "fetch ?en (serverUrl ?en old_descriptor) server_init = Inr resp_empty \<and>
    ok resp_empty \<and> body resp_empty = Inr ?b \<and> content ?b = []"
    by (simp add: host_env_def resp_empty_def ok_def)
  have "downloadFromServer ?en old_descriptor =
      (Inr False,
       [Fetch (serverUrl ?en old_descriptor) server_init,
        failed_alert (Error ''Downloaded file is empty'')])"
    using empty_body_fails [of old_descriptor _ ?en resp_empty ?b] c by blast
  then have l: "download ?en (Some old_descriptor) =
      (Inr False,
       [Fetch ''https://jamalpur-chamber-backend-b61d.onrender.com/api/files/old.pdf''
          server_init,
        Alert (''PDF download failed: Downloaded file is empty'' @ [CHR 0x0A, CHR 0x0A] @
               ''Please try again or contact support if the problem persists.'')])"
    by (simp add: download_def try_catch_def old_descriptor_def serverUrl_def apiBase_def
          or_else_def or_opt_def template_def host_env_def failed_alert_def)
  from k r l show ?thesis by simp
qed

subsection \<open>The signature check\<close>

text \<open>
  Claim C5, as stated, fails in its second half: a payload reported as
  \<open>application/octet-stream\<close> is delivered with that type unchanged, while one reported as
  \<open>text/html\<close> is delivered as \<open>application/pdf\<close>.
\<close>

theorem mime_reconciliation_counterexample:
  "expectPdf remote_descriptor \<and>
   download (host_env (Inr resp_octet)) (Some remote_descriptor) =
     (Inr True,
      [Fetch ''https://res.cloudinary.com/demo/raw/upload/v1/jamalpur-chamber/a.pdf?fl_attachment''
         url_init,
       Warn_invalid_pdf ''JUNK'',
       Log_downloading ''a.pdf'' 4 ''application/octet-stream'',
       Create_object_url \<lparr>content = ''JUNK'', btype = ''application/octet-stream''\<rparr>,
       Link_click ''blob:1'' ''a.pdf'']) \<and>
   download (host_env (Inr resp_html)) (Some remote_descriptor) =
     (Inr True,
      [Fetch ''https://res.cloudinary.com/demo/raw/upload/v1/jamalpur-chamber/a.pdf?fl_attachment''
         url_init,
       Warn_invalid_pdf ''<htm'',
       Log_downloading ''a.pdf'' 6 ''application/pdf'',
       Create_object_url \<lparr>content = ''<html>'', btype = ''application/pdf''\<rparr>,
       Link_click ''blob:1'' ''a.pdf''])"
proof -
  have u: "url remote_descriptor
      = Some ''https://res.cloudinary.com/demo/image/upload/v1/jamalpur-chamber/a.pdf''"
    "publicId remote_descriptor = Some ''jamalpur-chamber/a''"
    by (simp_all add: remote_descriptor_def)
  have o: "download (host_env (Inr resp_octet)) (Some remote_descriptor) =
     (Inr True,
      [Fetch ''https://res.cloudinary.com/demo/raw/upload/v1/jamalpur-chamber/a.pdf?fl_attachment''
         url_init,
       Warn_invalid_pdf ''JUNK'',
       Log_downloading ''a.pdf'' 4 ''application/octet-stream'',
       Create_object_url \<lparr>content = ''JUNK'', btype = ''application/octet-stream''\<rparr>,
       Link_click ''blob:1'' ''a.pdf''])"
    by (simp add: download_def u downloadFromUrl_def expectPdf_remote getFilename_remote
          fetchUrl_remote host_env_def resp_octet_def receive_def ok_def finalBlob_def
          downloadBlob_cases finalFilename_a io_defs Let_def)
  have h: "download (host_env (Inr resp_html)) (Some remote_descriptor) =
     (Inr True,
      [Fetch ''https://res.cloudinary.com/demo/raw/upload/v1/jamalpur-chamber/a.pdf?fl_attachment''
         url_init,
       Warn_invalid_pdf ''<htm'',
       Log_downloading ''a.pdf'' 6 ''application/pdf'',
       Create_object_url \<lparr>content = ''<html>'', btype = ''application/pdf''\<rparr>,
       Link_click ''blob:1'' ''a.pdf''])"
    by (simp add: download_def u downloadFromUrl_def expectPdf_remote getFilename_remote
          fetchUrl_remote host_env_def resp_html_def receive_def ok_def finalBlob_def
          downloadBlob_cases finalFilename_a io_defs Let_def)
  from expectPdf_remote o h show ?thesis by simp
qed

text \<open>
  Claim C5, amended: when a PDF is expected and the first four bytes of the fetched
  content are not \<open>%PDF\<close>, the run only records a warning and goes on to
  \<open>_downloadBlob\<close>; the download returns true when the delivery succeeds. The payload
  handed on has the fetched bytes, and its type is set to \<open>application/pdf\<close> exactly when
  the reported type is neither \<open>application/pdf\<close> nor \<open>application/octet-stream\<close> nor
  empty; a generic or empty type is left as reported. When no PDF is expected the
  payload is handed on unchanged.
\<close>

theorem signature_mismatch_only_warns:
  "(expectPdf f \<and> url f = Some u \<and> fetch en (fetchUrl u (publicId f)) url_init = Inr resp \<and>
    ok resp \<and> body resp = Inr b \<and> content b \<noteq> [] \<and> take 4 (content b) \<noteq> ''%PDF'' \<longrightarrow>
      downloadFromUrl en f =
        (case downloadBlob en (finalBlob True b) (getFilename (Some f)) of
           (Inl e, t) \<Rightarrow>
             (Inr False,
              [Fetch (fetchUrl u (publicId f)) url_init, Warn_invalid_pdf (take 4 (content b))]
                @ t @ [failed_alert e])
         | (Inr _, t) \<Rightarrow>
             (Inr True,
              [Fetch (fetchUrl u (publicId f)) url_init, Warn_invalid_pdf (take 4 (content b))]
                @ t))) \<and>
   (expectPdf f \<and> fetch en (serverUrl en f) server_init = Inr resp \<and>
    ok resp \<and> body resp = Inr b \<and> content b \<noteq> [] \<and> take 4 (content b) \<noteq> ''%PDF'' \<longrightarrow>
      downloadFromServer en f =
        (case downloadBlob en (finalBlob True b) (getFilename (Some f)) of
           (Inl e, t) \<Rightarrow>
             (Inr False,
              [Fetch (serverUrl en f) server_init, Warn_invalid_pdf (take 4 (content b))]
                @ t @ [failed_alert e])
         | (Inr _, t) \<Rightarrow>
             (Inr True,
              [Fetch (serverUrl en f) server_init, Warn_invalid_pdf (take 4 (content b))]
                @ t))) \<and>
   content (finalBlob True b) = content b \<and>
   btype (finalBlob True b) =
     (if btype b = ''application/pdf'' \<or> btype b = ''application/octet-stream'' \<or> btype b = []
      then btype b else ''application/pdf'') \<and>
   finalBlob False b = b"
proof -
  have p: "prefix ''%PDF'' (take 4 (content b)) = (take 4 (content b) = ''%PDF'')"
    by (rule pdf_signature)
  show ?thesis
    by (auto simp: downloadFromUrl_fetched downloadFromServer_fetched receive_delivers p
          finalBlob_def Let_def split: sum.splits prod.splits)
qed

theorem signature_mismatch_only_warns_witness:
  "expectPdf remote_descriptor \<and> ok resp_octet \<and> take 4 ''JUNK'' \<noteq> ''%PDF'' \<and>
   downloadFromUrl (host_env (Inr resp_octet)) remote_descriptor =
     (Inr True,
      [Fetch ''https://res.cloudinary.com/demo/raw/upload/v1/jamalpur-chamber/a.pdf?fl_attachment''
         url_init,
       Warn_invalid_pdf ''JUNK'',
       Log_downloading ''a.pdf'' 4 ''application/octet-stream'',
       Create_object_url \<lparr>content = ''JUNK'', btype = ''application/octet-stream''\<rparr>,
       Link_click ''blob:1'' ''a.pdf''])"
proof -
  let ?en = "host_env (Inr resp_octet)"
  let ?b = "\<lparr>content = ''JUNK'', btype = ''application/octet-stream''\<rparr>"
  let ?u = "''https://res.cloudinary.com/demo/image/upload/v1/jamalpur-chamber/a.pdf''"
  have k: "ok resp_octet" by (simp add: resp_octet_def ok_def)
  have a: "expectPdf remote_descriptor \<and> url remote_descriptor = Some ?u \<and>
      fetch ?en (fetchUrl ?u (publicId remote_descriptor)) url_init = Inr resp_octet \<and>
      ok resp_octet \<and> body resp_octet = Inr ?b \<and> content ?b \<noteq> [] \<and>
      take 4 (content ?b) \<noteq> ''%PDF''"
    using expectPdf_remote
    by (simp add: remote_descriptor_def host_env_def resp_octet_def ok_def)
  have "downloadFromUrl ?en remote_descriptor =
        (case downloadBlob ?en (finalBlob True ?b) (getFilename (Some remote_descriptor)) of
           (Inl e, t) \<Rightarrow>
             (Inr False,
              [Fetch (fetchUrl ?u (publicId remote_descriptor)) url_init,
               Warn_invalid_pdf (take 4 (content ?b))] @ t @ [failed_alert e])
         | (Inr _, t) \<Rightarrow>
             (Inr True,
              [Fetch (fetchUrl ?u (publicId remote_descriptor)) url_init,
               Warn_invalid_pdf (take 4 (content ?b))] @ t))"
    using signature_mismatch_only_warns [of remote_descriptor ?u ?en resp_octet ?b] a
    by blast
  then have "downloadFromUrl ?en remote_descriptor =
     (Inr True,
      [Fetch ''https://res.cloudinary.com/demo/raw/upload/v1/jamalpur-chamber/a.pdf?fl_attachment''
         url_init,
       Warn_invalid_pdf ''JUNK'',
       Log_downloading ''a.pdf'' 4 ''application/octet-stream'',
       Create_object_url ?b, Link_click ''blob:1'' ''a.pdf''])"
    by (simp add: getFilename_remote finalBlob_def downloadBlob_cases finalFilename_a
          host_env_def remote_fields fetchUrl_remote)
  with expectPdf_remote k show ?thesis by simp
qed

subsection \<open>The legacy URL\<close>

lemma serverUrl_old: "serverUrl en old_descriptor = apiBase en @ ''/files/old.pdf''"
  by (simp add: serverUrl_def old_descriptor_def or_opt_def template_def)

lemma serverUrl_id: "serverUrl en id_descriptor = apiBase en @ ''/files/123''"
  by (simp add: serverUrl_def id_descriptor_def or_opt_def template_def)

lemma apiBase_host_env:
  "apiBase (host_env r) = ''https://jamalpur-chamber-backend-b61d.onrender.com/api''"
  by (simp add: apiBase_def host_env_def or_else_def)

lemma download_legacy:
  "\<not> truthy (url f) \<Longrightarrow> truthy (filename f) \<or> truthy (fileId f) \<Longrightarrow>
     download en (Some f) = downloadFromServer en f"
  using downloadFromServer_returns [of en f]
  by (auto simp: download_def try_catch_id)

text \<open>
  Claim C4, as stated, fails: for the descriptor with filename \<open>old.pdf\<close> and fileId
  \<open>123\<close> the legacy strategy is selected, but the URL that is fetched ends in
  \<open>/files/old.pdf\<close>, not in \<open>/files/123\<close>.
\<close>

theorem legacy_url_counterexample:
  "fetches (snd (download (host_env (Inr resp_404)) (Some old_descriptor)))
     = [(''https://jamalpur-chamber-backend-b61d.onrender.com/api/files/old.pdf'',
         server_init)] \<and>
   fetches (snd (download (host_env (Inr resp_404)) (Some old_descriptor)))
     \<noteq> [(apiBase (host_env (Inr resp_404)) @ ''/files/123'', server_init)]"
proof -
  have "download (host_env (Inr resp_404)) (Some old_descriptor)
      = downloadFromServer (host_env (Inr resp_404)) old_descriptor"
    by (rule download_legacy) (simp_all add: old_descriptor_def)
  then show ?thesis
    by (simp add: fetches_downloadFromServer serverUrl_old apiBase_host_env)
qed

lemma serverUrl_filename:
  "filename f = Some n \<Longrightarrow> n \<noteq> [] \<Longrightarrow> serverUrl en f = apiBase en @ ''/files/'' @ n"
  by (simp add: serverUrl_def or_opt_def template_def)

lemma serverUrl_fileId:
  "\<not> truthy (filename f) \<Longrightarrow> fileId f = Some i \<Longrightarrow>
     serverUrl en f = apiBase en @ ''/files/'' @ i"
  by (simp add: serverUrl_def or_opt_def template_def)

lemma view_legacy:
  "\<not> truthy (url f) \<Longrightarrow> truthy (filename f) \<or> truthy (fileId f) \<Longrightarrow>
     snd (view en (Some f)) = [Window_open (serverUrl en f)]"
  by (auto simp: view_def snd_try_catch snd_and_then fst_and_then host_def ret_def
      split: sum.splits)

lemma print_legacy:
  "\<not> truthy (url f) \<Longrightarrow> truthy (filename f) \<or> truthy (fileId f) \<Longrightarrow>
     snd (print en (Some f)) = [Window_open (serverUrl en f)]"
  by (auto simp: print_def snd_try_catch snd_and_then fst_and_then host_def ret_def
      split: sum.splits)

text \<open>
  Claim C4, amended: for the descriptor with filename \<open>old.pdf\<close> and fileId \<open>123\<close> and no
  url, \<open>download\<close> selects the legacy strategy and fetches the base URL followed by
  \<open>/files/old.pdf\<close>, and \<open>view\<close> opens the same URL. The rule holds for every descriptor
  without a url: when the filename is defined and not empty, \<open>download\<close> is the legacy
  download and the URL that \<open>download\<close> fetches and that \<open>view\<close> and \<open>print\<close> open is the
  base followed by \<open>/files/\<close> and the filename, whatever the fileId; the fileId is used
  only when the filename is absent or empty (then, with fileId \<open>123\<close>, the URL ends in
  \<open>/files/123\<close>).
\<close>

theorem legacy_url:
  "(\<not> truthy (url f) \<and> filename f = Some n \<and> n \<noteq> [] \<longrightarrow>
      download en (Some f) = downloadFromServer en f \<and>
      fetches (snd (download en (Some f))) = [(apiBase en @ ''/files/'' @ n, server_init)] \<and>
      snd (view en (Some f)) = [Window_open (apiBase en @ ''/files/'' @ n)] \<and>
      snd (print en (Some f)) = [Window_open (apiBase en @ ''/files/'' @ n)]) \<and>
   (\<not> truthy (url f) \<and> \<not> truthy (filename f) \<and> fileId f = Some i \<and> i \<noteq> [] \<longrightarrow>
      download en (Some f) = downloadFromServer en f \<and>
      fetches (snd (download en (Some f))) = [(apiBase en @ ''/files/'' @ i, server_init)] \<and>
      snd (view en (Some f)) = [Window_open (apiBase en @ ''/files/'' @ i)] \<and>
      snd (print en (Some f)) = [Window_open (apiBase en @ ''/files/'' @ i)]) \<and>
   download en (Some old_descriptor) = downloadFromServer en old_descriptor \<and>
   fetches (snd (download en (Some old_descriptor)))
     = [(apiBase en @ ''/files/old.pdf'', server_init)] \<and>
   snd (view en (Some old_descriptor)) = [Window_open (apiBase en @ ''/files/old.pdf'')] \<and>
   fetches (snd (download en (Some id_descriptor)))
     = [(apiBase en @ ''/files/123'', server_init)] \<and>
   fetches (snd (download en (Some blank_name_descriptor)))
     = [(apiBase en @ ''/files/123'', server_init)]"
proof -
  have byname: "download en (Some g) = downloadFromServer en g \<and>
      fetches (snd (download en (Some g))) = [(apiBase en @ ''/files/'' @ m, server_init)] \<and>
      snd (view en (Some g)) = [Window_open (apiBase en @ ''/files/'' @ m)] \<and>
      snd (print en (Some g)) = [Window_open (apiBase en @ ''/files/'' @ m)]"
    if "\<not> truthy (url g)" "filename g = Some m" "m \<noteq> []" for g m
  proof -
    from that have t: "truthy (filename g) \<or> truthy (fileId g)" by simp
    from that have u: "serverUrl en g = apiBase en @ ''/files/'' @ m"
      by (simp add: serverUrl_filename)
    from download_legacy [OF that(1) t] view_legacy [OF that(1) t] print_legacy [OF that(1) t]
      u show ?thesis
      by (simp add: fetches_downloadFromServer)
  qed
  have byid: "download en (Some g) = downloadFromServer en g \<and>
      fetches (snd (download en (Some g))) = [(apiBase en @ ''/files/'' @ m, server_init)] \<and>
      snd (view en (Some g)) = [Window_open (apiBase en @ ''/files/'' @ m)] \<and>
      snd (print en (Some g)) = [Window_open (apiBase en @ ''/files/'' @ m)]"
    if "\<not> truthy (url g)" "\<not> truthy (filename g)" "fileId g = Some m" "m \<noteq> []" for g m
  proof -
    from that have t: "truthy (filename g) \<or> truthy (fileId g)" by simp
    from that have u: "serverUrl en g = apiBase en @ ''/files/'' @ m"
      by (simp add: serverUrl_fileId)
    from download_legacy [OF that(1) t] view_legacy [OF that(1) t] print_legacy [OF that(1) t]
      u show ?thesis
      by (simp add: fetches_downloadFromServer)
  qed
  have o: "\<not> truthy (url old_descriptor)" "filename old_descriptor = Some ''old.pdf''"
    by (simp_all add: old_descriptor_def)
  have d: "\<not> truthy (url id_descriptor)" "\<not> truthy (filename id_descriptor)"
    "fileId id_descriptor = Some ''123''"
    by (simp_all add: id_descriptor_def)
  have b: "\<not> truthy (url blank_name_descriptor)" "\<not> truthy (filename blank_name_descriptor)"
    "fileId blank_name_descriptor = Some ''123''"
    by (simp_all add: blank_name_descriptor_def)
  have co: "download en (Some old_descriptor) = downloadFromServer en old_descriptor \<and>
      fetches (snd (download en (Some old_descriptor)))
        = [(apiBase en @ ''/files/old.pdf'', server_init)] \<and>
      snd (view en (Some old_descriptor)) = [Window_open (apiBase en @ ''/files/old.pdf'')]"
    using byname [OF o] by auto
  have cd: "fetches (snd (download en (Some id_descriptor)))
        = [(apiBase en @ ''/files/123'', server_init)]"
    using byid [OF d] by auto
  have cb: "fetches (snd (download en (Some blank_name_descriptor)))
        = [(apiBase en @ ''/files/123'', server_init)]"
    using byid [OF b] by auto
  from byname [of f n] byid [of f i] co cd cb
  show ?thesis by blast
qed

theorem legacy_url_witness:
  "\<not> truthy (url old_descriptor) \<and> filename old_descriptor = Some ''old.pdf'' \<and>
   fileId old_descriptor = Some ''123'' \<and>
   fetches (snd (download (host_env (Inr resp_octet)) (Some old_descriptor)))
     = [(''https://jamalpur-chamber-backend-b61d.onrender.com/api/files/old.pdf'',
         server_init)] \<and>
   snd (view (host_env (Inr resp_octet)) (Some old_descriptor))
     = [Window_open ''https://jamalpur-chamber-backend-b61d.onrender.com/api/files/old.pdf''] \<and>
   snd (print (host_env (Inr resp_octet)) (Some old_descriptor))
     = [Window_open ''https://jamalpur-chamber-backend-b61d.onrender.com/api/files/old.pdf''] \<and>
   \<not> truthy (url blank_name_descriptor) \<and> filename blank_name_descriptor = Some [] \<and>
   \<not> truthy (filename blank_name_descriptor) \<and>
   fileId blank_name_descriptor = Some ''123'' \<and>
   fetches (snd (download (host_env (Inr resp_octet)) (Some blank_name_descriptor)))
     = [(''https://jamalpur-chamber-backend-b61d.onrender.com/api/files/123'',
         server_init)] \<and>
   snd (view (host_env (Inr resp_octet)) (Some blank_name_descriptor))
     = [Window_open ''https://jamalpur-chamber-backend-b61d.onrender.com/api/files/123''] \<and>
   \<not> truthy (filename id_descriptor) \<and>
   fetches (snd (download (host_env (Inr resp_octet)) (Some id_descriptor)))
     = [(''https://jamalpur-chamber-backend-b61d.onrender.com/api/files/123'',
         server_init)]"
proof -
  let ?en = "host_env (Inr resp_octet)"
  have o: "\<not> truthy (url old_descriptor) \<and> filename old_descriptor = Some ''old.pdf'' \<and>
      ''old.pdf'' \<noteq> []" "fileId old_descriptor = Some ''123''"
    by (simp_all add: old_descriptor_def)
  have b: "\<not> truthy (url blank_name_descriptor) \<and> \<not> truthy (filename blank_name_descriptor) \<and>
      fileId blank_name_descriptor = Some ''123'' \<and> ''123'' \<noteq> []"
    "filename blank_name_descriptor = Some []"
    by (simp_all add: blank_name_descriptor_def)
  have d: "\<not> truthy (url id_descriptor) \<and> \<not> truthy (filename id_descriptor) \<and>
      fileId id_descriptor = Some ''123'' \<and> ''123'' \<noteq> []"
    by (simp add: id_descriptor_def)
  note t = legacy_url [where en = ?en]
  from t [where f = old_descriptor and n = "''old.pdf''"] o(1)
  have 1: "fetches (snd (download ?en (Some old_descriptor)))
        = [(apiBase ?en @ ''/files/'' @ ''old.pdf'', server_init)] \<and>
      snd (view ?en (Some old_descriptor))
        = [Window_open (apiBase ?en @ ''/files/'' @ ''old.pdf'')] \<and>
      snd (print ?en (Some old_descriptor))
        = [Window_open (apiBase ?en @ ''/files/'' @ ''old.pdf'')]"
    by blast
  from t [where f = blank_name_descriptor and i = "''123''"] b(1)
  have 2: "fetches (snd (download ?en (Some blank_name_descriptor)))
        = [(apiBase ?en @ ''/files/'' @ ''123'', server_init)] \<and>
      snd (view ?en (Some blank_name_descriptor))
        = [Window_open (apiBase ?en @ ''/files/'' @ ''123'')]"
    by blast
  from t [where f = id_descriptor and i = "''123''"] d
  have 3: "fetches (snd (download ?en (Some id_descriptor)))
        = [(apiBase ?en @ ''/files/'' @ ''123'', server_init)]"
    by blast
  from o b d 1 2 3 show ?thesis
    by (simp add: apiBase_host_env)
qed

subsection \<open>The entry points\<close>

lemma receive_true:
  "fst (receive en expect fname resp) = Inr True \<Longrightarrow>
     \<exists>href final. last (snd (receive en expect fname resp)) = Link_click href final \<and>
       click en href final = Inr ()"
  by (auto simp: receive_def io_defs downloadBlob_cases Let_def
      split: if_splits sum.splits prod.splits)

lemma receive_true_nonempty:
  "fst (receive en expect fname resp) = Inr True \<Longrightarrow> snd (receive en expect fname resp) \<noteq> []"
  by (auto simp: receive_def io_defs downloadBlob_cases Let_def
      split: if_splits sum.splits prod.splits)

lemma downloadFromUrl_true:
  assumes a: "fst (downloadFromUrl en f) = Inr True"
  shows "\<exists>href final. last (snd (downloadFromUrl en f)) = Link_click href final \<and>
       click en href final = Inr ()"
proof (cases "url f")
  case None
  with a show ?thesis
    by (simp add: downloadFromUrl_def io_defs Let_def)
next
  case (Some u)
  show ?thesis
  proof (cases "fetch en (fetchUrl u (publicId f)) url_init")
    case (Inl e)
    with Some a show ?thesis
      by (simp add: downloadFromUrl_def io_defs Let_def)
  next
    case (Inr resp)
    let ?m = "receive en (expectPdf f) (getFilename (Some f)) resp"
    note d = downloadFromUrl_fetched [OF Some Inr]
    from a d have r: "fst ?m = Inr True"
      by (cases ?m) (auto split: sum.splits)
    from receive_true [OF r] obtain href final
      where l: "last (snd ?m) = Link_click href final" "click en href final = Inr ()"
      by blast
    from receive_true_nonempty [OF r] have n: "snd ?m \<noteq> []" .
    from r d have "snd (downloadFromUrl en f) = Fetch (fetchUrl u (publicId f)) url_init # snd ?m"
      by (cases ?m) auto
    with l n show ?thesis by auto
  qed
qed

lemma downloadFromServer_true:
  assumes a: "fst (downloadFromServer en f) = Inr True"
  shows "\<exists>href final. last (snd (downloadFromServer en f)) = Link_click href final \<and>
       click en href final = Inr ()"
proof (cases "fetch en (serverUrl en f) server_init")
  case (Inl e)
  with a show ?thesis
    by (simp add: downloadFromServer_def io_defs Let_def)
next
  case (Inr resp)
  let ?m = "receive en (expectPdf f) (getFilename (Some f)) resp"
  note d = downloadFromServer_fetched [OF Inr]
  from a d have r: "fst ?m = Inr True"
    by (cases ?m) (auto split: sum.splits)
  from receive_true [OF r] obtain href final
    where l: "last (snd ?m) = Link_click href final" "click en href final = Inr ()"
    by blast
  from receive_true_nonempty [OF r] have n: "snd ?m \<noteq> []" .
  from r d have "snd (downloadFromServer en f) = Fetch (serverUrl en f) server_init # snd ?m"
    by (cases ?m) auto
  with l n show ?thesis by auto
qed

lemma downloadFromDataURL_true:
  assumes a: "fst (downloadFromDataURL en f) = Inr True"
  shows "\<exists>href final. last (snd (downloadFromDataURL en f)) = Link_click href final \<and>
       click en href final = Inr ()"
  using a
  by (auto simp: downloadFromDataURL_def io_defs Let_def split: sum.splits)

lemma download_true:
  assumes a: "fst (download en (Some f)) = Inr True"
  shows "\<exists>href final. last (snd (download en (Some f))) = Link_click href final \<and>
       click en href final = Inr ()"
proof -
  consider (u) "truthy (url f)"
    | (s) "\<not> truthy (url f)" "truthy (filename f) \<or> truthy (fileId f)"
    | (d) "\<not> truthy (url f)" "\<not> truthy (filename f)" "\<not> truthy (fileId f)" "truthy (data f)"
    | (n) "\<not> truthy (url f)" "\<not> truthy (filename f)" "\<not> truthy (fileId f)"
        "\<not> truthy (data f)"
    by blast
  then show ?thesis
  proof cases
    case u
    with downloadFromUrl_returns [of en f]
    have "download en (Some f) = downloadFromUrl en f"
      by (auto simp: download_def try_catch_id)
    with a downloadFromUrl_true [of en f] show ?thesis by simp
  next
    case s
    then have "download en (Some f) = downloadFromServer en f"
      by (simp add: download_legacy)
    with a downloadFromServer_true [of en f] show ?thesis by simp
  next
    case d
    with downloadFromDataURL_returns [of en f]
    have "download en (Some f) = downloadFromDataURL en f"
      by (auto simp: download_def try_catch_id)
    with a downloadFromDataURL_true [of en f] show ?thesis by simp
  next
    case n
    with a show ?thesis by (simp add: download_def io_defs)
  qed
qed

lemma download_returns: "\<exists>b t. download en p = (Inr b, t)"
proof -
  have "\<exists>b. fst (download en p) = Inr b"
    by (cases p) (auto simp: download_def fst_try_catch ret_def split: sum.splits)
  then show ?thesis by (cases "download en p") auto
qed

lemma view_returns: "\<exists>b t. view en p = (Inr b, t)"
proof -
  have "\<exists>b. fst (view en p) = Inr b"
    by (cases p) (auto simp: view_def fst_try_catch ret_def split: sum.splits)
  then show ?thesis by (cases "view en p") auto
qed

lemma print_returns: "\<exists>b t. print en p = (Inr b, t)"
proof -
  have "\<exists>b. fst (print en p) = Inr b"
    by (cases p) (auto simp: print_def fst_try_catch ret_def split: sum.splits)
  then show ?thesis by (cases "print en p") auto
qed

lemma download_remote_octet:
  "download (host_env (Inr resp_octet)) (Some remote_descriptor) =
     (Inr True,
      [Fetch ''https://res.cloudinary.com/demo/raw/upload/v1/jamalpur-chamber/a.pdf?fl_attachment''
         url_init,
       Warn_invalid_pdf ''JUNK'',
       Log_downloading ''a.pdf'' 4 ''application/octet-stream'',
       Create_object_url \<lparr>content = ''JUNK'', btype = ''application/octet-stream''\<rparr>,
       Link_click ''blob:1'' ''a.pdf''])"
  by (simp add: download_def remote_fields downloadFromUrl_def expectPdf_remote
        getFilename_remote fetchUrl_remote host_env_def resp_octet_def receive_def ok_def
        finalBlob_def downloadBlob_cases finalFilename_a io_defs Let_def)

text \<open>
  Claim C10: \<open>download\<close>, \<open>view\<close> and \<open>print\<close> return a boolean for every host and every
  argument and never throw. They return false, without touching the host, for a missing
  argument and for a descriptor with none of url, filename, fileId and data. \<open>view\<close> and
  \<open>print\<close> return false when \<open>window.open\<close> throws, \<open>print\<close> also when it returns no
  window; \<open>download\<close> returns false when the fetch rejects, and it returns true only
  when the last thing the run did was a click on the download link that succeeded.
\<close>

theorem entry_points_return_boolean:
  "(\<exists>b t. download en p = (Inr b, t)) \<and>
   (\<exists>b t. view en p = (Inr b, t)) \<and>
   (\<exists>b t. print en p = (Inr b, t)) \<and>
   download en None = (Inr False, []) \<and>
   view en None = (Inr False, []) \<and>
   print en None = (Inr False, []) \<and>
   (\<not> truthy (url f) \<and> \<not> truthy (filename f) \<and> \<not> truthy (fileId f) \<and> \<not> truthy (data f) \<longrightarrow>
      download en (Some f) = (Inr False, []) \<and>
      view en (Some f) = (Inr False, []) \<and>
      print en (Some f) = (Inr False, [])) \<and>
   ((\<forall>u. window_open en u = Inl e) \<longrightarrow>
      fst (view en (Some f)) = Inr False \<and> fst (print en (Some f)) = Inr False) \<and>
   ((\<forall>u. window_open en u = Inr False) \<longrightarrow> fst (print en (Some f)) = Inr False) \<and>
   ((\<forall>u i. fetch en u i = Inl e) \<and>
    (truthy (url f) \<or> truthy (filename f) \<or> truthy (fileId f)) \<longrightarrow>
      fst (download en (Some f)) = Inr False) \<and>
   (fst (download en (Some f)) = Inr True \<longrightarrow>
      (\<exists>href final. last (snd (download en (Some f))) = Link_click href final \<and>
         click en href final = Inr ()))"
proof -
  have none: "download en None = (Inr False, [])" "view en None = (Inr False, [])"
    "print en None = (Inr False, [])"
    by (simp_all add: download_def view_def print_def ret_def)
  have invalid: "download en (Some f) = (Inr False, []) \<and> view en (Some f) = (Inr False, []) \<and>
      print en (Some f) = (Inr False, [])"
    if "\<not> truthy (url f) \<and> \<not> truthy (filename f) \<and> \<not> truthy (fileId f) \<and> \<not> truthy (data f)"
    using that by (simp add: download_def view_def print_def io_defs)
  have blocked: "fst (view en (Some f)) = Inr False \<and> fst (print en (Some f)) = Inr False"
    if "\<forall>u. window_open en u = Inl e"
    using that by (simp add: view_def print_def io_defs)
  have null: "fst (print en (Some f)) = Inr False" if "\<forall>u. window_open en u = Inr False"
    using that by (simp add: print_def io_defs)
  have offline: "fst (download en (Some f)) = Inr False"
    if "(\<forall>u i. fetch en u i = Inl e) \<and>
        (truthy (url f) \<or> truthy (filename f) \<or> truthy (fileId f))"
    using that
    by (cases "url f")
      (auto simp: download_def downloadFromUrl_def downloadFromServer_def io_defs Let_def)
  from download_returns [of en p] view_returns [of en p] print_returns [of en p]
    none invalid blocked null offline download_true [of en f]
  show ?thesis by blast
qed

theorem entry_points_return_boolean_witness:
  "download failing_env (Some empty_descriptor) = (Inr False, []) \<and>
   fst (view failing_env (Some remote_descriptor)) = Inr False \<and>
   fst (print failing_env (Some remote_descriptor)) = Inr False \<and>
   fst (download failing_env (Some remote_descriptor)) = Inr False \<and>
   fst (download (host_env (Inr resp_octet)) (Some remote_descriptor)) = Inr True \<and>
   last (snd (download (host_env (Inr resp_octet)) (Some remote_descriptor)))
     = Link_click ''blob:1'' ''a.pdf'' \<and>
   click (host_env (Inr resp_octet)) ''blob:1'' ''a.pdf'' = Inr ()"
proof -
  have w: "\<forall>u. window_open failing_env u = Inl (Error ''blocked'')"
    by (simp add: failing_env_def)
  have o: "(\<forall>u i. fetch failing_env u i = Inl (Error ''Failed to fetch'')) \<and>
      (truthy (url remote_descriptor) \<or> truthy (filename remote_descriptor) \<or>
       truthy (fileId remote_descriptor))"
    by (simp add: failing_env_def remote_descriptor_def)
  have i: "\<not> truthy (url empty_descriptor) \<and> \<not> truthy (filename empty_descriptor) \<and>
      \<not> truthy (fileId empty_descriptor) \<and> \<not> truthy (data empty_descriptor)"
    by (simp add: empty_descriptor_def)
  have a: "download failing_env (Some empty_descriptor) = (Inr False, [])"
    using entry_points_return_boolean [of failing_env None empty_descriptor] i by blast
  have b: "fst (view failing_env (Some remote_descriptor)) = Inr False"
    "fst (print failing_env (Some remote_descriptor)) = Inr False"
    using entry_points_return_boolean
      [of failing_env None remote_descriptor "Error ''blocked''"] w by blast+
  have c: "fst (download failing_env (Some remote_descriptor)) = Inr False"
    using entry_points_return_boolean
      [of failing_env None remote_descriptor "Error ''Failed to fetch''"] o by blast
  have d: "fst (download (host_env (Inr resp_octet)) (Some remote_descriptor)) = Inr True"
    "last (snd (download (host_env (Inr resp_octet)) (Some remote_descriptor)))
       = Link_click ''blob:1'' ''a.pdf''"
    by (simp_all add: download_remote_octet)
  have k: "click (host_env (Inr resp_octet)) ''blob:1'' ''a.pdf'' = Inr ()"
    by (simp add: host_env_def)
  from a b c d k show ?thesis by simp
qed

subsection \<open>Sanitizing the file name\<close>

lemma is_space_scrub: "is_space (if illegal c then CHR ''_'' else c) = is_space c"
  by (auto simp: is_space_def illegal_def)

lemma scrub_scrub:
  "(if illegal (if illegal c then CHR ''_'' else c) then CHR ''_''
    else (if illegal c then CHR ''_'' else c)) = (if illegal c then CHR ''_'' else c)"
  by (simp add: illegal_def)

lemma dropWhile_scrub:
  "dropWhile is_space (map (\<lambda>c. if illegal c then CHR ''_'' else c) s)
     = map (\<lambda>c. if illegal c then CHR ''_'' else c) (dropWhile is_space s)"
  by (induction s) (simp_all add: is_space_scrub)

lemma trim_scrub:
  "trim (map (\<lambda>c. if illegal c then CHR ''_'' else c) s)
     = map (\<lambda>c. if illegal c then CHR ''_'' else c) (trim s)"
  by (simp add: trim_def dropWhile_scrub rev_map)

lemma last_dropWhile: "dropWhile P xs \<noteq> [] \<Longrightarrow> last (dropWhile P xs) = last xs"
  by (induction xs) (auto split: if_splits)

lemma dropWhile_self: "xs = [] \<or> \<not> P (hd xs) \<Longrightarrow> dropWhile P xs = xs"
  by (cases xs) auto

lemma trim_trim: "trim (trim s) = trim s"
proof -
  let ?d = "dropWhile is_space s"
  let ?e = "dropWhile is_space (rev ?d)"
  have "?e = [] \<or> \<not> is_space (hd (rev ?e))"
  proof (cases "?e = []")
    case True
    then show ?thesis by simp
  next
    case False
    have d: "?d \<noteq> []"
    proof
      assume "?d = []"
      then have "?e = dropWhile is_space (rev [])" by (simp only:)
      with False show False by simp
    qed
    from False have "hd (rev ?e) = last ?e" by (simp add: hd_rev)
    also from False have "\<dots> = last (rev ?d)" by (rule last_dropWhile)
    also from d have "\<dots> = hd ?d" by (simp add: last_rev)
    finally have "hd (rev ?e) = hd ?d" .
    with d hd_dropWhile [of is_space s] show ?thesis by simp
  qed
  then have "dropWhile is_space (rev ?e) = rev ?e"
    by (intro dropWhile_self) auto
  then show ?thesis
    by (simp add: trim_def)
qed

lemma sanitized_fixed:
  assumes "sanitizedFilename fallback fallback = fallback"
  shows "sanitizedFilename fallback (sanitizedFilename fallback s)
           = sanitizedFilename fallback s"
proof -
  let ?g = "\<lambda>c. if illegal c then CHR ''_'' else c"
  let ?t = "trim (map ?g s)"
  show ?thesis
  proof (cases "?t = []")
    case True
    then have "sanitizedFilename fallback s = fallback"
      by (simp add: sanitizedFilename_def)
    with assms show ?thesis by simp
  next
    case False
    then have r: "sanitizedFilename fallback s = ?t"
      by (simp add: sanitizedFilename_def)
    have "trim (map ?g ?t) = trim (trim (map ?g (map ?g s)))"
      by (simp only: trim_scrub)
    also have "map ?g (map ?g s) = map ?g s"
      by (simp add: scrub_scrub)
    finally have "trim (map ?g ?t) = ?t"
      by (simp add: trim_trim)
    with False have "sanitizedFilename fallback ?t = ?t"
      by (simp add: sanitizedFilename_def)
    with r show ?thesis by simp
  qed
qed

text \<open>
  Claim C9: sanitizing a file name (replacing each of \<open>< > : " / \ | ? *\<close> by an
  underscore, trimming, and falling back to a fixed name when nothing is left) is
  idempotent, with the fallback \<open>document\<close> of \<open>_downloadBlob\<close> and with the fallback
  \<open>document.pdf\<close> of \<open>_downloadFromDataURL\<close>.
\<close>

theorem sanitization_idempotent:
  "sanitizedFilename ''document'' (sanitizedFilename ''document'' s)
     = sanitizedFilename ''document'' s \<and>
   sanitizedFilename ''document.pdf'' (sanitizedFilename ''document.pdf'' s)
     = sanitizedFilename ''document.pdf'' s"
proof -
  have a: "sanitizedFilename ''document'' ''document'' = ''document''"
    by (simp add: sanitizedFilename_def illegal_def trim_def is_space_def)
  have b: "sanitizedFilename ''document.pdf'' ''document.pdf'' = ''document.pdf''"
    by (simp add: sanitizedFilename_def illegal_def trim_def is_space_def)
  from sanitized_fixed [OF a] sanitized_fixed [OF b] show ?thesis by simp
qed

end
